theory Spec2Isabelle
  imports Complex_Main "HOL-Library.Multiset"
begin

section \<open>Python values and errors\<close>

text \<open>
  The program is Python. Its floats are modelled as the real numbers (no rounding, no
  overflow, no nan), its unbounded integers as \<open>int\<close>. A field that holds values of
  different Python types in different parsers (\<open>id\<close>, \<open>ci_coeff\<close>, \<open>s2\<close>) is a
  \<open>pyval\<close>. An exception is a value of \<open>py_error\<close>; a function that can raise returns
  \<open>py_error + 'a\<close> with \<open>Inl\<close> for the exception.
\<close>

datatype pyval = PyInt int | PyFloat real | PyStr string

datatype py_error =
  TypeError | ValueError | IndexError | KeyError | ZeroDivisionError | AssertionError
  | NonFinite

text \<open>
  \<open>NonFinite\<close> is not a Python exception: it marks the one place (division of the
  spectrum by a zero maximum) where numpy goes on with nan and inf, which the real
  numbers do not have.
\<close>

fun num_of :: "pyval \<Rightarrow> real option" where
  "num_of (PyInt i) = Some (of_int i)"
| "num_of (PyFloat x) = Some x"
| "num_of (PyStr s) = None"

text \<open>A \<open>for\<close> loop whose body can raise: the first exception ends the loop.\<close>

fun for_each :: "('a \<Rightarrow> py_error + 'b) \<Rightarrow> 'a list \<Rightarrow> py_error + 'b list" where
  "for_each g [] = Inr []"
| "for_each g (x # xs) =
     (case g x of
        Inl e \<Rightarrow> Inl e
      | Inr y \<Rightarrow> (case for_each g xs of Inl e \<Rightarrow> Inl e | Inr ys \<Rightarrow> Inr (y # ys)))"

definition lower_char :: "char \<Rightarrow> char" where
  "lower_char c =
     (case map_of (zip ''ABCDEFGHIJKLMNOPQRSTUVWXYZ'' ''abcdefghijklmnopqrstuvwxyz'') c of
        Some d \<Rightarrow> d
      | None \<Rightarrow> c)"

definition lower :: "string \<Rightarrow> string" where
  "lower s = map lower_char s"

section \<open>The excited-state model (td.py)\<close>

record MOTransition =
  start_mo :: string
  start_spin :: string
  to_or_from :: string
  final_mo :: string
  final_spin :: string
  ci_coeff :: pyval
  contrib :: "real option"
  start_irrep :: string
  final_irrep :: string

text \<open>
  The fields \<open>id\<close>, \<open>l\<close> and \<open>f\<close> of the class are \<open>id_es\<close>, \<open>l_nm\<close> and
  \<open>f_osc\<close> here.
\<close>

record ExcitedState =
  id_es :: pyval
  spin :: string
  spat :: string
  dE :: real
  l_nm :: real
  f_osc :: real
  s2 :: pyval
  rr_weight :: "real option"
  mo_transitions :: "MOTransition list"

definition ExcitedState_init ::
  "pyval \<Rightarrow> string \<Rightarrow> string \<Rightarrow> real \<Rightarrow> real \<Rightarrow> real \<Rightarrow> pyval \<Rightarrow> ExcitedState" where
  "ExcitedState_init i sp st e wl fo s =
     \<lparr>id_es = i, spin = sp, spat = st, dE = e, l_nm = wl, f_osc = fo, s2 = s,
      rr_weight = None, mo_transitions = []\<rparr>"

text \<open>
  \<open>add_mo_transition\<close>: the arguments in the order of the method's signature; the
  defaults \<open>contrib=None\<close>, \<open>start_irrep="A"\<close>, \<open>final_irrep="A"\<close> are written out by
  the callers.
\<close>

definition add_mo_transition ::
  "ExcitedState \<Rightarrow> string \<Rightarrow> string \<Rightarrow> string \<Rightarrow> pyval \<Rightarrow> string \<Rightarrow> string \<Rightarrow>
   real option \<Rightarrow> string \<Rightarrow> string \<Rightarrow> ExcitedState" where
  "add_mo_transition es smo tf fmo ci sspin fspin con sirrep firrep =
     (let sspin' = (if sspin = [] then ''alpha'' else sspin);
          fspin' = (if fspin = [] then ''alpha'' else fspin)
      in es\<lparr>mo_transitions := mo_transitions es @
           [\<lparr>start_mo = smo, start_spin = sspin', to_or_from = tf, final_mo = fmo,
             final_spin = fspin', ci_coeff = ci, contrib = con,
             start_irrep = sirrep, final_irrep = firrep\<rparr>]\<rparr>)"

definition is_singlet :: "ExcitedState \<Rightarrow> bool" where
  "is_singlet es = (spin es = lower ''Singlet'')"

subsection \<open>calculate_contributions\<close>

text \<open>
  One turn of the loop: a transition whose contribution is not \<open>None\<close> is skipped;
  otherwise \<open>ci_coeff**2\<close> (a TypeError when the coefficient is a string), doubled for a
  singlet state.
\<close>

definition calculate_contribution :: "bool \<Rightarrow> MOTransition \<Rightarrow> py_error + MOTransition" where
  "calculate_contribution singlet t =
     (case contrib t of
        Some c \<Rightarrow> Inr t
      | None \<Rightarrow>
          (case num_of (ci_coeff t) of
             None \<Rightarrow> Inl TypeError
           | Some x \<Rightarrow>
               (let c = x ^ 2; c = (if singlet then c * 2 else c)
                in Inr (t\<lparr>contrib := Some c\<rparr>))))"

definition calculate_contributions :: "ExcitedState \<Rightarrow> py_error + ExcitedState" where
  "calculate_contributions es =
     (case for_each (calculate_contribution (is_singlet es)) (mo_transitions es) of
        Inl e \<Rightarrow> Inl e
      | Inr ts \<Rightarrow> Inr (es\<lparr>mo_transitions := ts\<rparr>))"

subsection \<open>correct_backexcitations\<close>

text \<open>
  The transitions are objects mutated in place, so a transition is named by its position
  in \<open>mo_transitions\<close>. \<open>first_index P ts\<close> is the position of the first element of the
  list comprehension \<open>[t for t in ts if P t]\<close>, whose element \<open>[0]\<close> the source takes
  (an IndexError when there is none).
\<close>

fun first_index :: "('a \<Rightarrow> bool) \<Rightarrow> 'a list \<Rightarrow> nat option" where
  "first_index P [] = None"
| "first_index P (x # xs) = (if P x then Some 0 else map_option Suc (first_index P xs))"

definition correct_one :: "MOTransition list \<Rightarrow> nat \<Rightarrow> py_error + MOTransition list" where
  "correct_one ts i =
     (let bt = ts ! i;
          final_mo' = start_mo bt;
          start_mo' = final_mo bt
      in case first_index (\<lambda>t. start_mo t = final_mo' \<and> final_mo t = start_mo') ts of
           None \<Rightarrow> Inl IndexError
         | Some j \<Rightarrow>
             (case contrib (ts ! j) of
                None \<Rightarrow> Inl TypeError
              | Some a \<Rightarrow>
                  (case contrib bt of
                     None \<Rightarrow> Inl TypeError
                   | Some b \<Rightarrow> Inr (ts[j := (ts ! j)\<lparr>contrib := Some (a - b)\<rparr>]))))"

fun correct_loop :: "nat list \<Rightarrow> MOTransition list \<Rightarrow> py_error + MOTransition list" where
  "correct_loop [] ts = Inr ts"
| "correct_loop (i # is) ts =
     (case correct_one ts i of Inl e \<Rightarrow> Inl e | Inr ts' \<Rightarrow> correct_loop is ts')"

definition back_transitions :: "MOTransition list \<Rightarrow> nat list" where
  "back_transitions ts = filter (\<lambda>i. to_or_from (ts ! i) = ''<-'') [0..<length ts]"

definition correct_backexcitations :: "ExcitedState \<Rightarrow> py_error + ExcitedState" where
  "correct_backexcitations es =
     (case correct_loop (back_transitions (mo_transitions es)) (mo_transitions es) of
        Inl e \<Rightarrow> Inl e
      | Inr ts \<Rightarrow> Inr (es\<lparr>mo_transitions := ts\<rparr>))"

subsection \<open>print_mo_transitions\<close>

text \<open>
  What is printed is a list of lines. The line \<open>outstr\<close> formats is kept as the
  transition it shows; the formatting's own exceptions are branches: an empty spin
  string (\<open>start_spin[0]\<close>, an IndexError), a string coefficient under the format
  \<open>5.3f\<close> and a \<open>None\<close> contribution under the format \<open>3.1%\<close> (both a ValueError
  in Python 2, which td.py is written in).
\<close>

datatype out_line = Outstr MOTransition | VerboseMOs string string

definition outstr :: "MOTransition \<Rightarrow> py_error + out_line" where
  "outstr t =
     (if start_spin t = [] \<or> final_spin t = [] then Inl IndexError
      else if num_of (ci_coeff t) = None then Inl ValueError
      else if contrib t = None then Inl ValueError
      else Inr (Outstr t))"

definition digit_of :: "char \<Rightarrow> nat option" where
  "digit_of c = map_of (zip ''0123456789'' [0, 1, 2, 3, 4, 5, 6, 7, 8, 9]) c"

fun nat_of_digits :: "nat \<Rightarrow> string \<Rightarrow> nat option" where
  "nat_of_digits acc [] = Some acc"
| "nat_of_digits acc (c # cs) =
     (case digit_of c of None \<Rightarrow> None | Some d \<Rightarrow> nat_of_digits (10 * acc + d) cs)"

text \<open>
  \<open>int(s)\<close> on the strings the parsers' patterns give (characters among digits,
  letters, quotes): a non-empty string of digits is its value, anything else a
  ValueError.
\<close>

definition py_int :: "string \<Rightarrow> py_error + int" where
  "py_int s =
     (if s = [] then Inl ValueError
      else case nat_of_digits 0 s of None \<Rightarrow> Inl ValueError | Some n \<Rightarrow> Inr (int n))"

definition verbose_line :: "(int \<times> string) list \<Rightarrow> MOTransition \<Rightarrow> py_error + out_line" where
  "verbose_line verbose_mos t =
     (case py_int (start_mo t) of
        Inl e \<Rightarrow> Inl e
      | Inr a \<Rightarrow>
          (case map_of verbose_mos a of
             None \<Rightarrow> Inl KeyError
           | Some sa \<Rightarrow>
               (case py_int (final_mo t) of
                  Inl e \<Rightarrow> Inl e
                | Inr b \<Rightarrow>
                    (case map_of verbose_mos b of
                       None \<Rightarrow> Inl KeyError
                     | Some sb \<Rightarrow> Inr (VerboseMOs sa sb)))))"

text \<open>
  The result is the lines printed and the exception that ended the loop, if one did
  (the lines printed before it stay printed). \<open>verbose_mos\<close> is the dictionary as an
  association list; it is true when it is not empty.
\<close>

fun print_loop :: "(int \<times> string) list \<Rightarrow> MOTransition list \<Rightarrow> out_line list \<times> py_error option" where
  "print_loop verbose_mos [] = ([], None)"
| "print_loop verbose_mos (t # ts) =
     (if to_or_from t = ''<-'' then print_loop verbose_mos ts
      else case outstr t of
             Inl e \<Rightarrow> ([], Some e)
           | Inr line \<Rightarrow>
               (if verbose_mos \<noteq> [] then
                  (case verbose_line verbose_mos t of
                     Inl e \<Rightarrow> ([line], Some e)
                   | Inr vl \<Rightarrow>
                       (case print_loop verbose_mos ts of
                          (lns, r) \<Rightarrow> (line # vl # lns, r)))
                else
                  (case print_loop verbose_mos ts of (lns, r) \<Rightarrow> (line # lns, r))))"

definition print_mo_transitions ::
  "ExcitedState \<Rightarrow> (int \<times> string) list \<Rightarrow> out_line list \<times> py_error option" where
  "print_mo_transitions es verbose_mos = print_loop verbose_mos (mo_transitions es)"

subsection \<open>suppress_low_ci_coeffs\<close>

text \<open>
  \<open>low_ci thresh contrib_thresh t\<close> says whether the loop appends \<open>t\<close> to \<open>to_del\<close>.
  \<open>if mo_trans.contrib:\<close> is false for \<open>None\<close> and for \<open>0.0\<close>; \<open>abs\<close> of a string
  coefficient is a TypeError.
\<close>

definition low_ci :: "real \<Rightarrow> real \<Rightarrow> MOTransition \<Rightarrow> py_error + bool" where
  "low_ci thresh contrib_thresh t =
     (if contrib t \<noteq> None \<and> contrib t \<noteq> Some 0 then Inr (the (contrib t) \<le> contrib_thresh)
      else case num_of (ci_coeff t) of
             None \<Rightarrow> Inl TypeError
           | Some x \<Rightarrow> Inr (\<bar>x\<bar> \<le> thresh))"

text \<open>
  \<open>remove\<close> compares by identity (the class defines no equality), so it removes exactly
  the marked objects.
\<close>

definition suppress_low_ci_coeffs :: "ExcitedState \<Rightarrow> real \<Rightarrow> py_error + ExcitedState" where
  "suppress_low_ci_coeffs es thresh =
     (let contrib_thresh = thresh ^ 2 * 2
      in case for_each (low_ci thresh contrib_thresh) (mo_transitions es) of
           Inl e \<Rightarrow> Inl e
         | Inr to_del \<Rightarrow>
             Inr (es\<lparr>mo_transitions :=
                    map fst (filter (\<lambda>(t, d). \<not> d) (zip (mo_transitions es) to_del))\<rparr>))"

subsection \<open>calc_rr_weight\<close>


section \<open>The main program's sorting (td.py)\<close>

text \<open>
  \<open>sorted\<close> is a stable sort, as \<open>sort_key\<close> is. \<open>relabel\<close> is the loop
  \<open>for i, es in enumerate(excited_states, 1): es.id = i\<close>.
\<close>

definition relabel :: "ExcitedState list \<Rightarrow> ExcitedState list" where
  "relabel states =
     map (\<lambda>(i, es). es\<lparr>id_es := PyInt (int i)\<rparr>) (zip [1..<Suc (length states)] states)"

definition sort_states :: "bool \<Rightarrow> ExcitedState list \<Rightarrow> ExcitedState list" where
  "sort_states sf excited_states =
     (if sf then sort_key (\<lambda>exc_state. - f_osc exc_state) excited_states
      else relabel (sort_key (\<lambda>exc_state. dE exc_state) excited_states))"

text \<open>
  The sorting of td/run.py: the energy sort with its relabelling stands inside a string
  literal there, so nothing is sorted by default; \<open>--sf\<close> and \<open>--se\<close> sort and leave the
  ids.
\<close>

definition sort_states_run :: "bool \<Rightarrow> bool \<Rightarrow> ExcitedState list \<Rightarrow> ExcitedState list" where
  "sort_states_run sf se excited_states =
     (let excited_states =
            (if sf then sort_key (\<lambda>exc_state. - f_osc exc_state) excited_states
             else excited_states)
      in if se then sort_key (\<lambda>es. - l_nm es) excited_states else excited_states)"

section \<open>The TURBOMOLE parsers\<close>

text \<open>
  The parsers start from the lists \<open>re.findall\<close> returns (the regular-expression engine
  is Python's, not the repository's) and do everything after them. \<open>py_float\<close> is
  \<open>float(s)\<close> on strings over the characters the patterns allow (digits, \<open>.\<close>, \<open>E\<close>,
  \<open>+\<close>, \<open>-\<close>): an optional sign, digits with at most one point and at least one digit,
  an optional exponent. Any other string is a ValueError here (Python also reads
  \<open>inf\<close>, \<open>nan\<close>, underscores and padding, which those patterns cannot match).
\<close>

definition split_first :: "(char \<Rightarrow> bool) \<Rightarrow> string \<Rightarrow> string \<times> string option" where
  "split_first P s =
     (takeWhile (\<lambda>c. \<not> P c) s,
      case dropWhile (\<lambda>c. \<not> P c) s of [] \<Rightarrow> None | c # r \<Rightarrow> Some r)"

definition strip_sign :: "string \<Rightarrow> bool \<times> string" where
  "strip_sign s =
     (case s of
        [] \<Rightarrow> (False, [])
      | c # r \<Rightarrow>
          (if c = CHR ''-'' then (True, r)
           else if c = CHR ''+'' then (False, r)
           else (False, s)))"

definition mantissa_of :: "string \<Rightarrow> real option" where
  "mantissa_of s =
     (case split_first (\<lambda>c. c = CHR ''.'') s of
        (ip, None) \<Rightarrow>
          (if ip = [] then None else map_option real (nat_of_digits 0 ip))
      | (ip, Some fp) \<Rightarrow>
          (if ip = [] \<and> fp = [] then None
           else case nat_of_digits 0 ip of
                  None \<Rightarrow> None
                | Some a \<Rightarrow>
                    (case nat_of_digits 0 fp of
                       None \<Rightarrow> None
                     | Some b \<Rightarrow> Some (real a + real b / 10 ^ length fp))))"

definition exponent_of :: "string \<Rightarrow> int option" where
  "exponent_of s =
     (case strip_sign s of
        (neg, ds) \<Rightarrow>
          (if ds = [] then None
           else case nat_of_digits 0 ds of
                  None \<Rightarrow> None
                | Some n \<Rightarrow> Some (if neg then - int n else int n)))"

definition py_float :: "string \<Rightarrow> py_error + real" where
  "py_float s =
     (case strip_sign s of
        (neg, body) \<Rightarrow>
          (case split_first (\<lambda>c. c = CHR ''E'' \<or> c = CHR ''e'') body of
             (m, ex) \<Rightarrow>
               (case mantissa_of m of
                  None \<Rightarrow> Inl ValueError
                | Some v \<Rightarrow>
                    (case (case ex of None \<Rightarrow> Some 0 | Some x \<Rightarrow> exponent_of x) of
                       None \<Rightarrow> Inl ValueError
                     | Some k \<Rightarrow>
                         (let a = (if 0 \<le> k then v * 10 ^ nat k else v / 10 ^ nat (- k))
                          in Inr (if neg then - a else a))))))"

text \<open>A loop that updates one object and can raise.\<close>

fun fold_err :: "('s \<Rightarrow> 'a \<Rightarrow> py_error + 's) \<Rightarrow> 's \<Rightarrow> 'a list \<Rightarrow> py_error + 's" where
  "fold_err g s [] = Inr s"
| "fold_err g s (x # xs) = (case g s x of Inl e \<Rightarrow> Inl e | Inr s' \<Rightarrow> fold_err g s' xs)"

subsection \<open>parse_escf\<close>

text \<open>One match of \<open>dc_re\<close>: its nine groups \<open>d[0]\<close> to \<open>d[8]\<close>.\<close>

type_synonym dc_groups =
  "string \<times> string \<times> string \<times> string \<times> string \<times> string \<times> string \<times> string \<times> string"

definition escf_transition :: "ExcitedState \<Rightarrow> dc_groups \<Rightarrow> py_error + ExcitedState" where
  "escf_transition exc_state d =
     (case d of
        (d0, d1, d2, d3, d4, d5, d6, d7, d8) \<Rightarrow>
          (case py_float d8 of
             Inl e \<Rightarrow> Inl e
           | Inr p \<Rightarrow>
               Inr (add_mo_transition exc_state d0 ''->'' d4 (PyInt 0) d2 d6
                      (Some (p / 100)) d1 d5)))"

definition escf_state ::
  "real \<Rightarrow> real \<Rightarrow> (int \<times> string \<times> string) \<times> real \<times> real \<times> dc_groups list \<Rightarrow>
   py_error + ExcitedState" where
  "escf_state HARTREE2EV HARTREE2NM x =
     (case x of
        ((id', spin', spat'), ee, osc, dc) \<Rightarrow>
          (let dE' = ee * HARTREE2EV
           in if ee = 0 then Inl ZeroDivisionError
              else
                (let l' = HARTREE2NM / ee;
                     exc_state =
                       ExcitedState_init (PyInt id') spin' spat' dE' l' osc (PyStr ''???'')
                 in fold_err escf_transition exc_state dc)))"

text \<open>
  \<open>parse_escf\<close> of td/parser/turbomole.py. The constants \<open>HARTREE2EV\<close> and
  \<open>HARTREE2NM\<close> come from the module td.constants, which is not among the sources;
  they are parameters. The arguments \<open>syms\<close>, \<open>ees\<close>, \<open>oscs\<close> are what the three
  \<open>findall\<close> calls return and \<open>dcs_parsed\<close> is the list of that name. The states are
  built from \<open>zip\<close> of the four lists: no length is compared.
\<close>

definition parse_escf ::
  "real \<Rightarrow> real \<Rightarrow> (string \<times> string \<times> string) list \<Rightarrow> string list \<Rightarrow> string list \<Rightarrow>
   dc_groups list list \<Rightarrow> py_error + ExcitedState list" where
  "parse_escf HARTREE2EV HARTREE2NM syms ees oscs dcs_parsed =
     (case for_each (\<lambda>(id', spin', spat').
                       case py_int id' of Inl e \<Rightarrow> Inl e | Inr i \<Rightarrow> Inr (i, spin', spat')) syms of
        Inl e \<Rightarrow> Inl e
      | Inr syms \<Rightarrow>
          (case for_each py_float ees of
             Inl e \<Rightarrow> Inl e
           | Inr ees \<Rightarrow>
               (case for_each py_float oscs of
                  Inl e \<Rightarrow> Inl e
                | Inr oscs \<Rightarrow>
                    for_each (escf_state HARTREE2EV HARTREE2NM)
                      (zip syms (zip ees (zip oscs dcs_parsed))))))"


subsection \<open>parse_ricc2\<close>

text \<open>The ASCII characters \<open>str.strip\<close> and \<open>str.split\<close> take for whitespace.\<close>

definition is_space :: "char \<Rightarrow> bool" where
  "is_space c =
     (c \<in> set [CHR '' '', CHR 0x09, CHR 0x0A, CHR 0x0B, CHR 0x0C, CHR 0x0D,
               CHR 0x1C, CHR 0x1D, CHR 0x1E, CHR 0x1F])"

definition strip :: "string \<Rightarrow> string" where
  "strip s = rev (dropWhile is_space (rev (dropWhile is_space s)))"

fun split_on :: "char \<Rightarrow> string \<Rightarrow> string list" where
  "split_on c [] = [[]]"
| "split_on c (x # xs) =
     (if x = c then [] # split_on c xs
      else case split_on c xs of [] \<Rightarrow> [[x]] | w # ws \<Rightarrow> (x # w) # ws)"

text \<open>\<open>s.split()\<close>: the words between runs of whitespace; \<open>w\<close> is the word being read, reversed.\<close>

fun split_ws :: "string \<Rightarrow> string \<Rightarrow> string list" where
  "split_ws w [] = (if w = [] then [] else [rev w])"
| "split_ws w (c # cs) =
     (if is_space c then (if w = [] then split_ws [] cs else rev w # split_ws [] cs)
      else split_ws (c # w) cs)"

definition list_insert :: "nat \<Rightarrow> 'a \<Rightarrow> 'a list \<Rightarrow> 'a list" where
  "list_insert n x xs = take n xs @ [x] @ drop n xs"

text \<open>The body of the loop over \<open>mo_contrib_blocks\<close>: one block to its \<open>split_lines\<close>.\<close>

definition ricc2_split_lines :: "string \<Rightarrow> string list list" where
  "ricc2_split_lines mcb =
     (let block_lines = butlast (tl (split_on CHR 0x0A (strip mcb)));
          split_lines =
            map (\<lambda>mol. split_ws []
                   (filter (\<lambda>c. c \<noteq> CHR ''|'' \<and> c \<noteq> CHR ''('' \<and> c \<noteq> CHR '')'') mol))
              block_lines
      in map (\<lambda>sl. if length sl = 8 then list_insert 7 ''a'' (list_insert 3 ''a'' sl) else sl)
           split_lines)"

text \<open>Unpacking a line into ten names is a ValueError unless it has ten fields.\<close>

definition ricc2_transition :: "ExcitedState \<Rightarrow> string list \<Rightarrow> py_error + ExcitedState" where
  "ricc2_transition exc_state sl =
     (if length sl \<noteq> 10 then Inl ValueError
      else case py_float (sl ! 9) of
             Inl e \<Rightarrow> Inl e
           | Inr p \<Rightarrow>
               Inr (add_mo_transition exc_state (sl ! 0) ''->'' (sl ! 4) (PyStr (sl ! 8))
                      (sl ! 3) (sl ! 7) (Some (p / 100)) (sl ! 1) (sl ! 5)))"

definition ricc2_state ::
  "real \<Rightarrow> string \<times> string \<times> string \<times> real \<times> real \<times> string list list \<Rightarrow>
   py_error + ExcitedState" where
  "ricc2_state EV2NM x =
     (case x of
        (id', spin', sym', ee, osc, moc) \<Rightarrow>
          (if ee = 0 then Inl ZeroDivisionError
           else
             (let l' = EV2NM / ee;
                  exc_state = ExcitedState_init (PyStr id') spin' sym' ee l' osc (PyStr ''???'')
              in fold_err ricc2_transition exc_state moc)))"

text \<open>
  \<open>parse_ricc2\<close> of td/parser/turbomole.py, with the constant \<open>EV2NM\<close> of td.constants
  as a parameter. \<open>ids_syms_spins\<close>, \<open>ees\<close>, \<open>oscs\<close> and \<open>mo_contrib_blocks\<close> are what
  the four \<open>findall\<close> calls return. Unpacking \<open>zip(*ids_syms_spins)\<close> into three names
  is a ValueError when nothing matched.
\<close>

definition parse_ricc2 ::
  "real \<Rightarrow> (string \<times> string \<times> string) list \<Rightarrow> string list \<Rightarrow> string list \<Rightarrow> string list \<Rightarrow>
   py_error + ExcitedState list" where
  "parse_ricc2 EV2NM ids_syms_spins ees oscs mo_contrib_blocks =
     (if ids_syms_spins = [] then Inl ValueError
      else
        (let ids = map fst ids_syms_spins;
             syms = map (\<lambda>x. fst (snd x)) ids_syms_spins;
             spins = map (\<lambda>x. snd (snd x)) ids_syms_spins
         in case for_each py_float ees of
              Inl e \<Rightarrow> Inl e
            | Inr ees \<Rightarrow>
                (case for_each py_float oscs of
                   Inl e \<Rightarrow> Inl e
                 | Inr oscs \<Rightarrow>
                     (let mo_contribs = map ricc2_split_lines mo_contrib_blocks
                      in if \<not> (length syms = length spins \<and> length spins = length ees)
                         then Inl AssertionError
                         else
                           (let halve = (length syms = 2 * length oscs);
                                syms = (if halve then take (length oscs) syms else syms);
                                spins = (if halve then take (length oscs) spins else spins);
                                ees = (if halve then take (length oscs) ees else ees)
                            in if \<not> (length syms = length spins \<and> length spins = length ees
                                      \<and> length ees = length oscs
                                      \<and> length oscs = length mo_contribs)
                               then Inl AssertionError
                               else for_each (ricc2_state EV2NM)
                                      (zip ids (zip spins (zip syms (zip ees
                                         (zip oscs mo_contribs))))))))))"

section \<open>The spectrum builder (td.py)\<close>







section \<open>Notions used to state the theorems\<close>

text \<open>
  \<open>same_mos bt t\<close> is the test of \<open>correct_backexcitations\<close>: the source sets
  \<open>final_mo = bt.start_mo\<close> and \<open>start_mo = bt.final_mo\<close> and asks for
  \<open>t.start_mo == final_mo and t.final_mo == start_mo\<close>, that is, for the labels of
  \<open>bt\<close> in the same places.
\<close>

definition same_mos :: "MOTransition \<Rightarrow> MOTransition \<Rightarrow> bool" where
  "same_mos bt t = (start_mo t = start_mo bt \<and> final_mo t = final_mo bt)"

definition labels :: "MOTransition \<Rightarrow> string \<times> string" where
  "labels t = (start_mo t, final_mo t)"

text \<open>The state of the correction loop against the list it started from.\<close>

definition only_contribs :: "MOTransition list \<Rightarrow> MOTransition list \<Rightarrow> bool" where
  "only_contribs ts0 ts =
     (length ts = length ts0
      \<and> (\<forall>k < length ts0. \<exists>c. ts ! k = (ts0 ! k)\<lparr>contrib := Some c\<rparr>)
      \<and> (\<forall>k < length ts0. to_or_from (ts0 ! k) = ''<-'' \<longrightarrow> ts ! k = ts0 ! k))"

definition back_sum :: "MOTransition list \<Rightarrow> nat list \<Rightarrow> nat \<Rightarrow> real" where
  "back_sum ts0 js j =
     sum_list (map (\<lambda>i. the (contrib (ts0 ! i)))
       (filter (\<lambda>i. first_index (same_mos (ts0 ! i)) ts0 = Some j) js))"

text \<open>
  The spec's \<open>sum(contribution for FORWARD transitions)\<close>; a contribution that is not
  set counts as 0.
\<close>

definition forward_contribution_sum :: "ExcitedState \<Rightarrow> real" where
  "forward_contribution_sum es =
     sum_list (map (\<lambda>t. case contrib t of None \<Rightarrow> 0 | Some c \<Rightarrow> c)
       (filter (\<lambda>t. to_or_from t = ''->'') (mo_transitions es)))"

section \<open>Example inputs\<close>

text \<open>Concrete states and transitions at which the theorems below are evaluated.\<close>

definition ex_transition :: "string \<Rightarrow> string \<Rightarrow> string \<Rightarrow> real \<Rightarrow> real option \<Rightarrow> MOTransition" where
  "ex_transition a d b ci c =
     \<lparr>start_mo = a, start_spin = ''alpha'', to_or_from = d, final_mo = b,
      final_spin = ''alpha'', ci_coeff = PyFloat ci, contrib = c,
      start_irrep = ''A'', final_irrep = ''A''\<rparr>"

definition ex_state :: "string \<Rightarrow> MOTransition list \<Rightarrow> ExcitedState" where
  "ex_state sp ts =
     \<lparr>id_es = PyInt 1, spin = sp, spat = ''A'', dE = 3, l_nm = 413.28, f_osc = 0.1,
      s2 = PyFloat 0, rr_weight = None, mo_transitions = ts\<rparr>"

definition ex_state_E :: "int \<Rightarrow> real \<Rightarrow> real \<Rightarrow> ExcitedState" where
  "ex_state_E i e fo =
     \<lparr>id_es = PyInt i, spin = ''singlet'', spat = ''A'', dE = e, l_nm = 1239.84193 / e,
      f_osc = fo, s2 = PyFloat 0, rr_weight = None, mo_transitions = []\<rparr>"


section \<open>Theorems\<close>

subsection \<open>calculate_contributions\<close>

lemma lower_Singlet: "lower ''Singlet'' = ''singlet''"
  by (simp add: lower_def lower_char_def)

lemma is_singlet_transitions [simp]:
  "is_singlet (es\<lparr>mo_transitions := ts\<rparr>) = is_singlet es"
  by (simp add: is_singlet_def)

lemma for_each_calculate_twice:
  "for_each (calculate_contribution b) ts = Inr ts' \<Longrightarrow>
   for_each (calculate_contribution b) ts' = Inr ts'"
proof (induction ts arbitrary: ts')
  case Nil
  then show ?case by simp
next
  case (Cons t ts)
  then show ?case
    by (auto simp: calculate_contribution_def Let_def split: sum.splits option.splits)
qed

lemma for_each_calculate_keeps:
  "for_each (calculate_contribution b) ts = Inr ts' \<Longrightarrow>
   length ts' = length ts \<and>
   (\<forall>i c. i < length ts \<and> contrib (ts ! i) = Some c \<longrightarrow> ts' ! i = ts ! i)"
proof (induction ts arbitrary: ts')
  case Nil
  then show ?case by simp
next
  case (Cons t ts)
  from Cons.prems obtain t' ts'' where
    t': "calculate_contribution b t = Inr t'" and
    r: "for_each (calculate_contribution b) ts = Inr ts''" and
    e: "ts' = t' # ts''"
    by (auto split: sum.splits)
  have ih: "length ts'' = length ts \<and>
    (\<forall>i c. i < length ts \<and> contrib (ts ! i) = Some c \<longrightarrow> ts'' ! i = ts ! i)"
    using Cons.IH [OF r] .
  have hd: "\<And>c. contrib t = Some c \<Longrightarrow> t' = t"
    using t' by (auto simp: calculate_contribution_def split: option.splits)
  show ?case
    unfolding e using ih hd by (auto simp: nth_Cons split: nat.splits)
qed

text \<open>
  C9. Calling \<open>calculate_contributions\<close> twice in a row gives what one call gives (the
  same state, or the same exception), and a transition whose contribution is set, to
  any value \<open>c\<close> and so also to 0, keeps it through the first call and through a
  second one.
\<close>

theorem calculate_contributions_twice:
  "(case calculate_contributions es of Inl e \<Rightarrow> Inl e | Inr es1 \<Rightarrow> calculate_contributions es1)
     = calculate_contributions es
   \<and> (\<forall>es1 i c. calculate_contributions es = Inr es1 \<and> i < length (mo_transitions es)
         \<and> contrib (mo_transitions es ! i) = Some c
       \<longrightarrow> contrib (mo_transitions es1 ! i) = Some c
           \<and> (\<forall>es2. calculate_contributions es1 = Inr es2
                \<longrightarrow> contrib (mo_transitions es2 ! i) = Some c))"
proof (intro conjI allI impI)
  show "(case calculate_contributions es of Inl e \<Rightarrow> Inl e | Inr es1 \<Rightarrow> calculate_contributions es1)
     = calculate_contributions es"
    by (auto simp: calculate_contributions_def dest: for_each_calculate_twice split: sum.splits)
next
  fix es1 i c
  assume a: "calculate_contributions es = Inr es1 \<and> i < length (mo_transitions es)
         \<and> contrib (mo_transitions es ! i) = Some c"
  then obtain ts where ts: "for_each (calculate_contribution (is_singlet es)) (mo_transitions es) = Inr ts"
    and es1: "es1 = es\<lparr>mo_transitions := ts\<rparr>"
    by (auto simp: calculate_contributions_def split: sum.splits)
  from for_each_calculate_keeps [OF ts] a have "ts ! i = mo_transitions es ! i" by blast
  with a es1 show c1: "contrib (mo_transitions es1 ! i) = Some c" by simp
  fix es2
  assume b: "calculate_contributions es1 = Inr es2"
  have "calculate_contributions es1 = Inr es1"
    using for_each_calculate_twice [OF ts] es1 by (simp add: calculate_contributions_def)
  with b have "es2 = es1" by simp
  with c1 show "contrib (mo_transitions es2 ! i) = Some c" by simp
qed

theorem calculate_contributions_twice_witness:
  "calculate_contributions (ex_state ''singlet''
      [ex_transition ''89'' ''->'' ''90'' 0.5 None, ex_transition ''88'' ''->'' ''90'' 0.7 (Some 0)])
     = Inr (ex_state ''singlet''
      [ex_transition ''89'' ''->'' ''90'' 0.5 (Some 0.5), ex_transition ''88'' ''->'' ''90'' 0.7 (Some 0)])
   \<and> calculate_contributions (ex_state ''singlet''
      [ex_transition ''89'' ''->'' ''90'' 0.5 (Some 0.5), ex_transition ''88'' ''->'' ''90'' 0.7 (Some 0)])
     = Inr (ex_state ''singlet''
      [ex_transition ''89'' ''->'' ''90'' 0.5 (Some 0.5), ex_transition ''88'' ''->'' ''90'' 0.7 (Some 0)])
   \<and> contrib (mo_transitions (ex_state ''singlet''
      [ex_transition ''89'' ''->'' ''90'' 0.5 (Some 0.5), ex_transition ''88'' ''->'' ''90'' 0.7 (Some 0)]) ! 1)
     = Some 0"
proof -
  let ?es = "ex_state ''singlet''
      [ex_transition ''89'' ''->'' ''90'' 0.5 None, ex_transition ''88'' ''->'' ''90'' 0.7 (Some 0)]"
  let ?es1 = "ex_state ''singlet''
      [ex_transition ''89'' ''->'' ''90'' 0.5 (Some 0.5), ex_transition ''88'' ''->'' ''90'' 0.7 (Some 0)]"
  have one: "calculate_contributions ?es = Inr ?es1"
    by (simp add: calculate_contributions_def calculate_contribution_def is_singlet_def
      lower_Singlet ex_state_def ex_transition_def power2_eq_square)
  have pre: "(1::nat) < length (mo_transitions ?es) \<and> contrib (mo_transitions ?es ! 1) = Some 0"
    by (simp add: ex_state_def ex_transition_def)
  note main = calculate_contributions_twice [of ?es]
  from main have "(case calculate_contributions ?es of Inl e \<Rightarrow> Inl e | Inr es1 \<Rightarrow> calculate_contributions es1)
     = calculate_contributions ?es"
    by blast
  with one have two: "calculate_contributions ?es1 = Inr ?es1" by simp
  from main one pre have "contrib (mo_transitions ?es1 ! 1) = Some 0" by blast
  with one two show ?thesis by simp
qed

text \<open>
  C2. The factor 2 is applied only when the stored spin token is exactly \<open>singlet\<close>, in
  lower case: \<open>is_singlet\<close> lowers the literal, not the token. A singlet state whose
  token is \<open>Singlet\<close>, as Gaussian prints it, gets \<open>0.5\<^sup>2 = 0.25\<close> where the state with
  the token \<open>singlet\<close> gets \<open>0.5\<^sup>2 \<times> 2 = 0.5\<close>.
\<close>

theorem calculate_contributions_Singlet_token:
  "calculate_contributions (ex_state ''Singlet'' [ex_transition ''89'' ''->'' ''90'' 0.5 None])
     = Inr (ex_state ''Singlet'' [ex_transition ''89'' ''->'' ''90'' 0.5 (Some 0.25)])
   \<and> calculate_contributions (ex_state ''singlet'' [ex_transition ''89'' ''->'' ''90'' 0.5 None])
     = Inr (ex_state ''singlet'' [ex_transition ''89'' ''->'' ''90'' 0.5 (Some 0.5)])"
  by (simp add: calculate_contributions_def calculate_contribution_def is_singlet_def
      lower_Singlet ex_state_def ex_transition_def power2_eq_square)

lemmas ex_defs = ex_state_def ex_transition_def

subsection \<open>correct_backexcitations and the listing\<close>

lemma first_index_Some:
  "first_index P xs = Some j \<Longrightarrow> j < length xs \<and> P (xs ! j) \<and> (\<forall>k < j. \<not> P (xs ! k))"
proof (induction xs arbitrary: j)
  case Nil
  then show ?case by simp
next
  case (Cons x xs)
  show ?case
  proof (cases "P x")
    case True
    with Cons.prems show ?thesis by simp
  next
    case False
    with Cons.prems obtain j' where j': "first_index P xs = Some j'" and j: "j = Suc j'"
      by auto
    from Cons.IH [OF j'] False show ?thesis
      unfolding j by (auto simp: nth_Cons split: nat.splits)
  qed
qed

lemma first_index_cong_map:
  "map g xs = map g ys \<Longrightarrow> first_index (\<lambda>t. Q (g t)) xs = first_index (\<lambda>t. Q (g t)) ys"
proof (induction xs arbitrary: ys)
  case Nil
  then show ?case by simp
next
  case (Cons x xs)
  then obtain y ys' where ys: "ys = y # ys'" by (cases ys) auto
  with Cons.prems have "g x = g y" "map g xs = map g ys'" by auto
  with Cons.IH show ?case unfolding ys by simp
qed

lemma correct_one_same_mos:
  "correct_one ts i =
     (case first_index (same_mos (ts ! i)) ts of
        None \<Rightarrow> Inl IndexError
      | Some j \<Rightarrow>
          (case contrib (ts ! j) of
             None \<Rightarrow> Inl TypeError
           | Some a \<Rightarrow>
               (case contrib (ts ! i) of
                  None \<Rightarrow> Inl TypeError
                | Some b \<Rightarrow> Inr (ts[j := (ts ! j)\<lparr>contrib := Some (a - b)\<rparr>]))))"
proof -
  have "same_mos (ts ! i) = (\<lambda>t. start_mo t = start_mo (ts ! i) \<and> final_mo t = final_mo (ts ! i))"
    by (rule ext) (simp add: same_mos_def)
  then show ?thesis by (simp add: correct_one_def Let_def)
qed

lemma only_contribs_labels:
  assumes "only_contribs ts0 ts"
  shows "map labels ts = map labels ts0"
proof (rule nth_equalityI)
  show "length (map labels ts) = length (map labels ts0)"
    using assms by (simp add: only_contribs_def)
next
  fix k assume "k < length (map labels ts)"
  then have k: "k < length ts0" using assms by (simp add: only_contribs_def)
  with assms obtain c where "ts ! k = (ts0 ! k)\<lparr>contrib := Some c\<rparr>"
    unfolding only_contribs_def by blast
  then have "labels (ts ! k) = labels (ts0 ! k)" by (simp add: labels_def)
  with k assms show "map labels ts ! k = map labels ts0 ! k"
    by (simp add: only_contribs_def)
qed

lemma same_mos_labels: "same_mos bt t = (labels t = labels bt)"
  by (auto simp: same_mos_def labels_def)

lemma only_contribs_first_index:
  assumes "only_contribs ts0 ts"
  shows "first_index (same_mos bt) ts = first_index (same_mos bt) ts0"
proof -
  have "first_index (\<lambda>t. labels t = labels bt) ts = first_index (\<lambda>t. labels t = labels bt) ts0"
    using first_index_cong_map [OF only_contribs_labels [OF assms], of "\<lambda>l. l = labels bt"] .
  then show ?thesis by (simp add: same_mos_labels [abs_def])
qed

lemma correct_loop_inv:
  assumes "only_contribs ts0 ts"
    and "\<forall>i \<in> set js. i < length ts0 \<and> to_or_from (ts0 ! i) = ''<-''
           \<and> (\<exists>j. first_index (same_mos (ts0 ! i)) ts0 = Some j \<and> to_or_from (ts0 ! j) \<noteq> ''<-'')"
    and "\<forall>k < length ts0. contrib (ts0 ! k) \<noteq> None"
  shows "\<exists>ts'. correct_loop js ts = Inr ts' \<and> only_contribs ts0 ts'
           \<and> (\<forall>j < length ts0. the (contrib (ts' ! j)) = the (contrib (ts ! j)) - back_sum ts0 js j)"
  using assms
proof (induction js arbitrary: ts)
  case Nil
  then show ?case by (simp add: back_sum_def)
next
  case (Cons i js)
  note inv = Cons.prems(1)
  from Cons.prems(2) obtain j where i: "i < length ts0" and isback: "to_or_from (ts0 ! i) = ''<-''"
    and j: "first_index (same_mos (ts0 ! i)) ts0 = Some j" and fwd: "to_or_from (ts0 ! j) \<noteq> ''<-''"
    by auto
  from first_index_Some [OF j] have jlen: "j < length ts0" by simp
  have bt: "ts ! i = ts0 ! i" using inv i isback by (simp add: only_contribs_def)
  have fi: "first_index (same_mos (ts ! i)) ts = Some j"
    using only_contribs_first_index [OF inv, of "ts ! i"] j bt by simp
  from inv jlen obtain a where a: "ts ! j = (ts0 ! j)\<lparr>contrib := Some a\<rparr>"
    unfolding only_contribs_def by blast
  from Cons.prems(3) i obtain b where b: "contrib (ts0 ! i) = Some b" by auto
  let ?ts1 = "ts[j := (ts ! j)\<lparr>contrib := Some (a - b)\<rparr>]"
  have one: "correct_one ts i = Inr ?ts1"
    using fi a b bt by (simp add: correct_one_same_mos)
  have len: "length ts = length ts0" using inv by (simp add: only_contribs_def)
  have inv1: "only_contribs ts0 ?ts1"
    unfolding only_contribs_def
  proof (intro conjI allI impI)
    show "length ?ts1 = length ts0" using len by simp
  next
    fix k assume k: "k < length ts0"
    show "\<exists>c. ?ts1 ! k = (ts0 ! k)\<lparr>contrib := Some c\<rparr>"
    proof (cases "k = j")
      case True
      have "?ts1 ! j = (ts0 ! j)\<lparr>contrib := Some (a - b)\<rparr>" using a len jlen by simp
      with True show ?thesis by blast
    next
      case False
      with inv k show ?thesis by (simp add: only_contribs_def)
    qed
  next
    fix k assume k: "k < length ts0" and bk: "to_or_from (ts0 ! k) = ''<-''"
    with fwd have "k \<noteq> j" by auto
    with inv k bk show "?ts1 ! k = ts0 ! k" by (simp add: only_contribs_def)
  qed
  from Cons.prems(2) have rest: "\<forall>i \<in> set js. i < length ts0 \<and> to_or_from (ts0 ! i) = ''<-''
           \<and> (\<exists>j. first_index (same_mos (ts0 ! i)) ts0 = Some j \<and> to_or_from (ts0 ! j) \<noteq> ''<-'')"
    by simp
  from Cons.IH [OF inv1 rest Cons.prems(3)] obtain ts' where
    loop: "correct_loop js ?ts1 = Inr ts'" and inv': "only_contribs ts0 ts'" and
    vals: "\<forall>j' < length ts0. the (contrib (ts' ! j')) = the (contrib (?ts1 ! j')) - back_sum ts0 js j'"
    by blast
  have "\<forall>j' < length ts0. the (contrib (ts' ! j')) = the (contrib (ts ! j')) - back_sum ts0 (i # js) j'"
  proof (intro allI impI)
    fix j' assume j': "j' < length ts0"
    show "the (contrib (ts' ! j')) = the (contrib (ts ! j')) - back_sum ts0 (i # js) j'"
    proof (cases "j' = j")
      case True
      have "the (contrib (?ts1 ! j)) = a - b" using len jlen by simp
      moreover have "the (contrib (ts ! j)) = a" using a by simp
      moreover have "back_sum ts0 (i # js) j = b + back_sum ts0 js j"
        using j b by (simp add: back_sum_def)
      ultimately show ?thesis using vals j' True by simp
    next
      case False
      then have "?ts1 ! j' = ts ! j'" by simp
      moreover have "back_sum ts0 (i # js) j' = back_sum ts0 js j'"
        using j False by (simp add: back_sum_def)
      ultimately show ?thesis using vals j' by simp
    qed
  qed
  with one loop inv' show ?case by simp
qed


lemma outstr_Inr: "outstr t = Inr line \<Longrightarrow> line = Outstr t"
  by (auto simp: outstr_def split: if_splits)

lemma verbose_line_Inr: "verbose_line vm t = Inr line \<Longrightarrow> \<exists>a b. line = VerboseMOs a b"
  by (auto simp: verbose_line_def split: sum.splits option.splits)

lemma print_loop_forward:
  "Outstr t \<in> set (fst (print_loop vm ts)) \<Longrightarrow> t \<in> set ts \<and> to_or_from t \<noteq> ''<-''"
proof (induction ts)
  case Nil
  then show ?case by simp
next
  case (Cons t' ts)
  show ?case
  proof (cases "to_or_from t' = ''<-''")
    case True
    with Cons show ?thesis by simp
  next
    case False
    show ?thesis
    proof (cases "outstr t'")
      case (Inl e)
      with False Cons.prems show ?thesis by simp
    next
      case (Inr line)
      then have line: "line = Outstr t'" by (rule outstr_Inr)
      show ?thesis
      proof (cases "verbose_line vm t'")
        case (Inl e)
        with False Inr line Cons show ?thesis
          by (auto split: prod.splits if_splits)
      next
        case r: (Inr vl)
        then obtain a b where "vl = VerboseMOs a b" using verbose_line_Inr by blast
        with False Inr line r Cons show ?thesis
          by (auto split: prod.splits if_splits)
      qed
    qed
  qed
qed

text \<open>
  C1, as the code has it. Let every contribution of the state be set, and let every
  BACKWARD transition (direction \<open><-\<close>) be stored with the labels of its partner, so
  that the first transition of the list with the start and final orbital of the BACKWARD
  one is a FORWARD one (direction \<open>->\<close>): Gaussian prints \<open>89 <- 90\<close> for the
  de-excitation that belongs to \<open>89 -> 90\<close>. Then \<open>correct_backexcitations\<close> returns,
  changes nothing but contributions, and leaves at every position \<open>j\<close> the contribution
  it found minus the contributions of the BACKWARD transitions whose partner is \<open>j\<close>
  (nothing is subtracted where there is none). \<open>print_mo_transitions\<close> formats no
  BACKWARD transition, whatever \<open>verbose_mos\<close> is.
\<close>

theorem correct_backexcitations_nets:
  assumes "\<forall>t \<in> set (mo_transitions es). contrib t \<noteq> None"
    and "\<forall>i < length (mo_transitions es). to_or_from (mo_transitions es ! i) = ''<-'' \<longrightarrow>
           (\<exists>j. first_index (same_mos (mo_transitions es ! i)) (mo_transitions es) = Some j
                \<and> to_or_from (mo_transitions es ! j) = ''->'')"
  shows "\<exists>ts'. correct_backexcitations es = Inr (es\<lparr>mo_transitions := ts'\<rparr>)
           \<and> length ts' = length (mo_transitions es)
           \<and> (\<forall>j < length (mo_transitions es).
                 ts' ! j = (mo_transitions es ! j)\<lparr>contrib :=
                   Some (the (contrib (mo_transitions es ! j))
                         - sum_list (map (\<lambda>i. the (contrib (mo_transitions es ! i)))
                             (filter (\<lambda>i. to_or_from (mo_transitions es ! i) = ''<-''
                                          \<and> first_index (same_mos (mo_transitions es ! i))
                                               (mo_transitions es) = Some j)
                                [0..<length (mo_transitions es)])))\<rparr>)
           \<and> (\<forall>verbose_mos t.
                 Outstr t \<in> set (fst (print_mo_transitions (es\<lparr>mo_transitions := ts'\<rparr>) verbose_mos))
                 \<longrightarrow> t \<in> set ts' \<and> to_or_from t \<noteq> ''<-'')"
proof -
  let ?ts = "mo_transitions es"
  have c: "\<forall>k < length ?ts. contrib (?ts ! k) \<noteq> None" using assms(1) by simp
  have inv0: "only_contribs ?ts ?ts"
    unfolding only_contribs_def
  proof (intro conjI allI impI)
    fix k assume "k < length ?ts"
    with c obtain x where "contrib (?ts ! k) = Some x" by auto
    then have "?ts ! k = (?ts ! k)\<lparr>contrib := Some x\<rparr>" by simp
    then show "\<exists>x. ?ts ! k = (?ts ! k)\<lparr>contrib := Some x\<rparr>" ..
  qed simp_all
  have bts: "\<forall>i \<in> set (back_transitions ?ts). i < length ?ts \<and> to_or_from (?ts ! i) = ''<-''
           \<and> (\<exists>j. first_index (same_mos (?ts ! i)) ?ts = Some j \<and> to_or_from (?ts ! j) \<noteq> ''<-'')"
    using assms(2) by (fastforce simp: back_transitions_def)
  from correct_loop_inv [OF inv0 bts c] obtain ts' where
    loop: "correct_loop (back_transitions ?ts) ?ts = Inr ts'" and inv: "only_contribs ?ts ts'" and
    vals: "\<forall>j < length ?ts. the (contrib (ts' ! j))
             = the (contrib (?ts ! j)) - back_sum ?ts (back_transitions ?ts) j"
    by blast
  have bs: "\<And>j. back_sum ?ts (back_transitions ?ts) j
       = sum_list (map (\<lambda>i. the (contrib (?ts ! i)))
           (filter (\<lambda>i. to_or_from (?ts ! i) = ''<-'' \<and> first_index (same_mos (?ts ! i)) ?ts = Some j)
              [0..<length ?ts]))"
    by (simp add: back_sum_def back_transitions_def conj_commute)
  have r: "correct_backexcitations es = Inr (es\<lparr>mo_transitions := ts'\<rparr>)"
    using loop by (simp add: correct_backexcitations_def)
  have len: "length ts' = length ?ts" using inv by (simp add: only_contribs_def)
  have each: "\<forall>j < length ?ts. ts' ! j = (?ts ! j)\<lparr>contrib :=
       Some (the (contrib (?ts ! j))
             - sum_list (map (\<lambda>i. the (contrib (?ts ! i)))
                 (filter (\<lambda>i. to_or_from (?ts ! i) = ''<-'' \<and> first_index (same_mos (?ts ! i)) ?ts = Some j)
                    [0..<length ?ts])))\<rparr>"
  proof (intro allI impI)
    fix j assume j: "j < length ?ts"
    with inv obtain x where x: "ts' ! j = (?ts ! j)\<lparr>contrib := Some x\<rparr>"
      unfolding only_contribs_def by blast
    then have "the (contrib (ts' ! j)) = x" by simp
    with vals j bs have "x = the (contrib (?ts ! j))
       - sum_list (map (\<lambda>i. the (contrib (?ts ! i)))
           (filter (\<lambda>i. to_or_from (?ts ! i) = ''<-'' \<and> first_index (same_mos (?ts ! i)) ?ts = Some j)
              [0..<length ?ts]))"
      by simp
    with x show "ts' ! j = (?ts ! j)\<lparr>contrib :=
       Some (the (contrib (?ts ! j))
             - sum_list (map (\<lambda>i. the (contrib (?ts ! i)))
                 (filter (\<lambda>i. to_or_from (?ts ! i) = ''<-'' \<and> first_index (same_mos (?ts ! i)) ?ts = Some j)
                    [0..<length ?ts])))\<rparr>"
      by simp
  qed
  have listing: "\<forall>verbose_mos t.
       Outstr t \<in> set (fst (print_mo_transitions (es\<lparr>mo_transitions := ts'\<rparr>) verbose_mos))
       \<longrightarrow> t \<in> set ts' \<and> to_or_from t \<noteq> ''<-''"
    using print_loop_forward by (simp add: print_mo_transitions_def)
  from r len each listing show ?thesis by blast
qed

text \<open>
  With FORWARD \<open>89 -> 90\<close> at 0.30 and BACKWARD \<open>89 <- 90\<close> at 0.05 the FORWARD
  contribution becomes 0.25, and the listing is the FORWARD line alone.
\<close>

theorem correct_backexcitations_nets_witness:
  "correct_backexcitations (ex_state ''singlet''
      [ex_transition ''89'' ''->'' ''90'' 0.4 (Some 0.30), ex_transition ''89'' ''<-'' ''90'' 0.2 (Some 0.05)])
   = Inr (ex_state ''singlet''
      [ex_transition ''89'' ''->'' ''90'' 0.4 (Some 0.25), ex_transition ''89'' ''<-'' ''90'' 0.2 (Some 0.05)])
   \<and> print_mo_transitions (ex_state ''singlet''
      [ex_transition ''89'' ''->'' ''90'' 0.4 (Some 0.25), ex_transition ''89'' ''<-'' ''90'' 0.2 (Some 0.05)]) []
     = ([Outstr (ex_transition ''89'' ''->'' ''90'' 0.4 (Some 0.25))], None)"
proof -
  let ?f = "ex_transition ''89'' ''->'' ''90'' 0.4 (Some 0.30)"
  let ?b = "ex_transition ''89'' ''<-'' ''90'' 0.2 (Some 0.05)"
  let ?es = "ex_state ''singlet'' [?f, ?b]"
  have ts: "mo_transitions ?es = [?f, ?b]" by (simp add: ex_defs)
  have dirs: "to_or_from ?f = ''->''" "to_or_from ?b = ''<-''" "contrib ?f = Some 0.30" "contrib ?b = Some 0.05"
    by (simp_all add: ex_defs)
  have h1: "\<forall>t \<in> set (mo_transitions ?es). contrib t \<noteq> None"
    unfolding ts using dirs by (simp del: not_None_eq)
  have sm: "same_mos ?b ?f" "same_mos ?f ?f"
    by (simp_all add: same_mos_def ex_defs)
  have h2: "\<forall>i < length (mo_transitions ?es). to_or_from (mo_transitions ?es ! i) = ''<-'' \<longrightarrow>
           (\<exists>j. first_index (same_mos (mo_transitions ?es ! i)) (mo_transitions ?es) = Some j
                \<and> to_or_from (mo_transitions ?es ! j) = ''->'')"
    unfolding ts using sm dirs by (auto simp: less_Suc_eq numeral_2_eq_2)
  from correct_backexcitations_nets [OF h1 h2] obtain ts' where
    r: "correct_backexcitations ?es = Inr (?es\<lparr>mo_transitions := ts'\<rparr>)" and
    len: "length ts' = length (mo_transitions ?es)" and
    each: "\<forall>j < length (mo_transitions ?es).
                 ts' ! j = (mo_transitions ?es ! j)\<lparr>contrib :=
                   Some (the (contrib (mo_transitions ?es ! j))
                         - sum_list (map (\<lambda>i. the (contrib (mo_transitions ?es ! i)))
                             (filter (\<lambda>i. to_or_from (mo_transitions ?es ! i) = ''<-''
                                          \<and> first_index (same_mos (mo_transitions ?es ! i))
                                               (mo_transitions ?es) = Some j)
                                [0..<length (mo_transitions ?es)])))\<rparr>"
    by blast
  have u: "[0..<2] = [0, Suc 0]" by (simp add: upt_rec)
  have t0: "ts' ! 0 = ex_transition ''89'' ''->'' ''90'' 0.4 (Some 0.25)"
    using each [rule_format, of 0] unfolding ts
    by (simp add: u same_mos_def ex_defs)
  have t1: "ts' ! 1 = ?b"
    using each [rule_format, of 1] unfolding ts
    by (simp add: u same_mos_def ex_defs)
  have "length ts' = 2" unfolding len ts by simp
  then obtain a b where ab: "ts' = [a, b]"
    by (metis (no_types) length_0_conv length_Suc_conv numeral_2_eq_2)
  with t0 t1 have "ts' = [ex_transition ''89'' ''->'' ''90'' 0.4 (Some 0.25), ?b]" by simp
  with r have first: "correct_backexcitations ?es
     = Inr (ex_state ''singlet'' [ex_transition ''89'' ''->'' ''90'' 0.4 (Some 0.25), ?b])"
    by (simp add: ex_state_def)
  have second: "print_mo_transitions (ex_state ''singlet''
      [ex_transition ''89'' ''->'' ''90'' 0.4 (Some 0.25), ?b]) []
     = ([Outstr (ex_transition ''89'' ''->'' ''90'' 0.4 (Some 0.25))], None)"
    by (simp add: print_mo_transitions_def outstr_def ex_defs)
  from first second show ?thesis by simp
qed


text \<open>
  C1 as stated fails in two ways. When the BACKWARD transition has the orbitals
  swapped (\<open>90 <- 89\<close> against \<open>89 -> 90\<close>), the search finds the BACKWARD transition
  itself: its own contribution becomes 0 and the FORWARD one stays 0.30. When the
  BACKWARD transition stands before its partner in the list, the search finds it first
  as well, with the same result.
\<close>

theorem correct_backexcitations_counterexample:
  "correct_backexcitations (ex_state ''singlet''
      [ex_transition ''89'' ''->'' ''90'' 0.4 (Some 0.30), ex_transition ''90'' ''<-'' ''89'' 0.2 (Some 0.05)])
   = Inr (ex_state ''singlet''
      [ex_transition ''89'' ''->'' ''90'' 0.4 (Some 0.30), ex_transition ''90'' ''<-'' ''89'' 0.2 (Some 0)])
   \<and> correct_backexcitations (ex_state ''singlet''
      [ex_transition ''89'' ''<-'' ''90'' 0.2 (Some 0.05), ex_transition ''89'' ''->'' ''90'' 0.4 (Some 0.30)])
   = Inr (ex_state ''singlet''
      [ex_transition ''89'' ''<-'' ''90'' 0.2 (Some 0), ex_transition ''89'' ''->'' ''90'' 0.4 (Some 0.30)])"
  by (simp add: correct_backexcitations_def back_transitions_def correct_one_def ex_defs upt_rec Let_def)

subsection \<open>suppress_low_ci_coeffs\<close>

text \<open>
  C3. The contribution threshold is \<open>thresh\<^sup>2 \<times> 2\<close> whatever the spin: in a triplet state
  a transition with contribution 0.06 is removed at threshold 0.2, although
  \<open>0.06 > 0.2\<^sup>2 \<times> 1\<close>. And a contribution equal to 0 counts as unknown: the transition
  is judged by its coefficient, and one with \<open>|ci_coeff| = 0.5\<close> is kept although
  \<open>0 \<le> 0.2\<^sup>2 \<times> 2\<close>.
\<close>

theorem suppress_low_ci_coeffs_doubling:
  "suppress_low_ci_coeffs
     (ex_state ''triplet'' [ex_transition ''89'' ''->'' ''90'' 0.245 (Some 0.06)]) 0.2
     = Inr (ex_state ''triplet'' [])
   \<and> \<not> is_singlet (ex_state ''triplet'' [ex_transition ''89'' ''->'' ''90'' 0.245 (Some 0.06)])
   \<and> \<not> ((0.06 :: real) \<le> 0.2 ^ 2 * 1)
   \<and> suppress_low_ci_coeffs
       (ex_state ''singlet'' [ex_transition ''89'' ''->'' ''90'' 0.5 (Some 0)]) 0.2
     = Inr (ex_state ''singlet'' [ex_transition ''89'' ''->'' ''90'' 0.5 (Some 0)])
   \<and> (0 :: real) \<le> 0.2 ^ 2 * 2"
  by (simp add: suppress_low_ci_coeffs_def low_ci_def is_singlet_def lower_Singlet ex_defs
      power2_eq_square)

lemma for_each_length: "for_each g xs = Inr ys \<Longrightarrow> length ys = length xs"
  by (induction xs arbitrary: ys) (auto split: sum.splits)

lemma for_each_total:
  "(\<And>x. x \<in> set xs \<Longrightarrow> \<exists>y. g x = Inr y) \<Longrightarrow> \<exists>ys. for_each g xs = Inr ys"
proof (induction xs)
  case Nil
  then show ?case by simp
next
  case (Cons x xs)
  then obtain y where "g x = Inr y" by auto
  moreover from Cons obtain ys where "for_each g xs = Inr ys" by auto
  ultimately show ?case by simp
qed

lemma kept_sum_le:
  "length ds = length xs \<Longrightarrow> (\<And>x. x \<in> set xs \<Longrightarrow> P x \<Longrightarrow> 0 \<le> w x) \<Longrightarrow>
   sum_list (map w (filter P (map fst (filter (\<lambda>(t, d). \<not> d) (zip xs ds)))))
     \<le> sum_list (map (w :: 'a \<Rightarrow> real) (filter P xs))"
proof (induction xs arbitrary: ds)
  case Nil
  then show ?case by simp
next
  case (Cons x xs)
  then obtain d ds' where ds: "ds = d # ds'" by (cases ds) auto
  with Cons.prems have len: "length ds' = length xs" by simp
  have ih: "sum_list (map w (filter P (map fst (filter (\<lambda>(t, d). \<not> d) (zip xs ds')))))
     \<le> sum_list (map w (filter P xs))"
    using Cons.IH [OF len] Cons.prems(2) by simp
  have "P x \<Longrightarrow> 0 \<le> w x" using Cons.prems(2) by simp
  with ih show ?case unfolding ds by auto
qed

text \<open>
  C4, as the code has it. When no FORWARD transition of the state has a negative
  contribution, the sum of the FORWARD contributions after \<open>suppress_low_ci_coeffs\<close> is at
  most the sum before, for every threshold; and the method returns whenever every
  coefficient is a number.
\<close>

theorem suppress_forward_sum:
  assumes "\<forall>t \<in> set (mo_transitions es). \<forall>c. to_or_from t = ''->'' \<and> contrib t = Some c \<longrightarrow> 0 \<le> c"
  shows "(\<forall>es'. suppress_low_ci_coeffs es thresh = Inr es'
            \<longrightarrow> forward_contribution_sum es' \<le> forward_contribution_sum es)
       \<and> ((\<forall>t \<in> set (mo_transitions es). num_of (ci_coeff t) \<noteq> None)
            \<longrightarrow> (\<exists>es'. suppress_low_ci_coeffs es thresh = Inr es'))"
proof (intro conjI allI impI)
  fix es'
  assume r: "suppress_low_ci_coeffs es thresh = Inr es'"
  then obtain ds where ds: "for_each (low_ci thresh (thresh ^ 2 * 2)) (mo_transitions es) = Inr ds"
    and es': "es' = es\<lparr>mo_transitions := map fst (filter (\<lambda>(t, d). \<not> d) (zip (mo_transitions es) ds))\<rparr>"
    by (auto simp: suppress_low_ci_coeffs_def Let_def split: sum.splits)
  have len: "length ds = length (mo_transitions es)" using for_each_length [OF ds] .
  have nonneg: "\<And>t. t \<in> set (mo_transitions es) \<Longrightarrow> to_or_from t = ''->'' \<Longrightarrow>
      0 \<le> (case contrib t of None \<Rightarrow> 0 | Some c \<Rightarrow> c)"
    using assms by (auto split: option.splits)
  show "forward_contribution_sum es' \<le> forward_contribution_sum es"
    unfolding forward_contribution_sum_def es'
    using kept_sum_le [OF len, of "\<lambda>t. to_or_from t = ''->''" "\<lambda>t. case contrib t of None \<Rightarrow> 0 | Some c \<Rightarrow> c"] nonneg
    by simp
next
  assume num: "\<forall>t \<in> set (mo_transitions es). num_of (ci_coeff t) \<noteq> None"
  have "\<exists>ds. for_each (low_ci thresh (thresh ^ 2 * 2)) (mo_transitions es) = Inr ds"
  proof (rule for_each_total)
    fix t assume "t \<in> set (mo_transitions es)"
    with num obtain x where "num_of (ci_coeff t) = Some x" by auto
    then show "\<exists>y. low_ci thresh (thresh ^ 2 * 2) t = Inr y"
      by (simp add: low_ci_def)
  qed
  then show "\<exists>es'. suppress_low_ci_coeffs es thresh = Inr es'"
    by (auto simp: suppress_low_ci_coeffs_def Let_def)
qed

lemma calc_ex:
  "calculate_contributions (ex_state ''singlet''
      [ex_transition ''89'' ''->'' ''90'' 0.1 None, ex_transition ''89'' ''<-'' ''90'' 0.3 None])
   = Inr (ex_state ''singlet''
      [ex_transition ''89'' ''->'' ''90'' 0.1 (Some 0.02), ex_transition ''89'' ''<-'' ''90'' 0.3 (Some 0.18)])"
  by (simp add: calculate_contributions_def calculate_contribution_def is_singlet_def
      lower_Singlet ex_defs power2_eq_square)

lemma corr_ex:
  "correct_backexcitations (ex_state ''singlet''
      [ex_transition ''89'' ''->'' ''90'' 0.1 (Some 0.02), ex_transition ''89'' ''<-'' ''90'' 0.3 (Some 0.18)])
   = Inr (ex_state ''singlet''
      [ex_transition ''89'' ''->'' ''90'' 0.1 (Some (- 0.16)), ex_transition ''89'' ''<-'' ''90'' 0.3 (Some 0.18)])"
  by (simp add: correct_backexcitations_def back_transitions_def correct_one_def ex_defs upt_rec Let_def)

lemma supp_ex:
  "suppress_low_ci_coeffs (ex_state ''singlet''
      [ex_transition ''89'' ''->'' ''90'' 0.1 (Some (- 0.16)), ex_transition ''89'' ''<-'' ''90'' 0.3 (Some 0.18)]) 0.2
   = Inr (ex_state ''singlet'' [ex_transition ''89'' ''<-'' ''90'' 0.3 (Some 0.18)])"
  by (simp add: suppress_low_ci_coeffs_def low_ci_def ex_defs power2_eq_square)

theorem suppress_forward_sum_witness:
  "suppress_low_ci_coeffs (ex_state ''singlet''
      [ex_transition ''89'' ''->'' ''90'' 0.5 (Some 0.5), ex_transition ''88'' ''->'' ''90'' 0.1 (Some 0.02)]) 0.2
     = Inr (ex_state ''singlet'' [ex_transition ''89'' ''->'' ''90'' 0.5 (Some 0.5)])
   \<and> forward_contribution_sum (ex_state ''singlet'' [ex_transition ''89'' ''->'' ''90'' 0.5 (Some 0.5)])
       \<le> forward_contribution_sum (ex_state ''singlet''
            [ex_transition ''89'' ''->'' ''90'' 0.5 (Some 0.5), ex_transition ''88'' ''->'' ''90'' 0.1 (Some 0.02)])"
proof -
  let ?es = "ex_state ''singlet''
      [ex_transition ''89'' ''->'' ''90'' 0.5 (Some 0.5), ex_transition ''88'' ''->'' ''90'' 0.1 (Some 0.02)]"
  have h: "\<forall>t \<in> set (mo_transitions ?es). \<forall>c. to_or_from t = ''->'' \<and> contrib t = Some c \<longrightarrow> 0 \<le> c"
    by (simp add: ex_defs)
  have r: "suppress_low_ci_coeffs ?es 0.2
     = Inr (ex_state ''singlet'' [ex_transition ''89'' ''->'' ''90'' 0.5 (Some 0.5)])"
    by (simp add: suppress_low_ci_coeffs_def low_ci_def ex_defs power2_eq_square)
  from suppress_forward_sum [OF h, of "0.2"] r show ?thesis by blast
qed

text \<open>
  C4 as stated fails for a state whose FORWARD contribution went negative in the
  back-excitation correction: with coefficients 0.1 (\<open>89 -> 90\<close>) and 0.3 (\<open>89 <- 90\<close>)
  in a singlet state the contributions are 0.02 and 0.18, the correction leaves
  \<open>0.02 - 0.18 = -0.16\<close>, and at threshold 0.2 the FORWARD transition is removed
  (\<open>-0.16 \<le> 0.08\<close>): the sum rises from -0.16 to 0.
\<close>

theorem suppress_forward_sum_counterexample:
  "calculate_contributions (ex_state ''singlet''
      [ex_transition ''89'' ''->'' ''90'' 0.1 None, ex_transition ''89'' ''<-'' ''90'' 0.3 None])
     = Inr (ex_state ''singlet''
      [ex_transition ''89'' ''->'' ''90'' 0.1 (Some 0.02), ex_transition ''89'' ''<-'' ''90'' 0.3 (Some 0.18)])
   \<and> correct_backexcitations (ex_state ''singlet''
      [ex_transition ''89'' ''->'' ''90'' 0.1 (Some 0.02), ex_transition ''89'' ''<-'' ''90'' 0.3 (Some 0.18)])
     = Inr (ex_state ''singlet''
      [ex_transition ''89'' ''->'' ''90'' 0.1 (Some (- 0.16)), ex_transition ''89'' ''<-'' ''90'' 0.3 (Some 0.18)])
   \<and> suppress_low_ci_coeffs (ex_state ''singlet''
      [ex_transition ''89'' ''->'' ''90'' 0.1 (Some (- 0.16)), ex_transition ''89'' ''<-'' ''90'' 0.3 (Some 0.18)]) 0.2
     = Inr (ex_state ''singlet'' [ex_transition ''89'' ''<-'' ''90'' 0.3 (Some 0.18)])
   \<and> forward_contribution_sum (ex_state ''singlet''
      [ex_transition ''89'' ''->'' ''90'' 0.1 (Some (- 0.16)), ex_transition ''89'' ''<-'' ''90'' 0.3 (Some 0.18)])
     = - 0.16
   \<and> forward_contribution_sum (ex_state ''singlet'' [ex_transition ''89'' ''<-'' ''90'' 0.3 (Some 0.18)])
     = 0
   \<and> \<not> (forward_contribution_sum (ex_state ''singlet'' [ex_transition ''89'' ''<-'' ''90'' 0.3 (Some 0.18)])
        \<le> forward_contribution_sum (ex_state ''singlet''
      [ex_transition ''89'' ''->'' ''90'' 0.1 (Some (- 0.16)), ex_transition ''89'' ''<-'' ''90'' 0.3 (Some 0.18)]))"
proof -
  have s1: "forward_contribution_sum (ex_state ''singlet''
      [ex_transition ''89'' ''->'' ''90'' 0.1 (Some (- 0.16)), ex_transition ''89'' ''<-'' ''90'' 0.3 (Some 0.18)])
     = - 0.16"
    by (simp add: forward_contribution_sum_def ex_defs)
  have s2: "forward_contribution_sum (ex_state ''singlet'' [ex_transition ''89'' ''<-'' ''90'' 0.3 (Some 0.18)])
     = 0"
    by (simp add: forward_contribution_sum_def ex_defs)
  show ?thesis
    unfolding s1 s2 using calc_ex corr_ex supp_ex by simp
qed

subsection \<open>calc_rr_weight\<close>




subsection \<open>Sorting\<close>

lemma relabel_nth:
  "i < length states \<Longrightarrow> relabel states ! i = (states ! i)\<lparr>id_es := PyInt (int i + 1)\<rparr>"
  by (simp add: relabel_def nth_append del: upt_Suc)

lemma length_relabel [simp]: "length (relabel states) = length states"
  by (simp add: relabel_def del: upt_Suc)

lemma relabel_dE: "map dE (relabel states) = map dE states"
  by (rule nth_equalityI) (simp_all add: relabel_nth)

lemma relabel_forget_id:
  "map (\<lambda>es. es\<lparr>id_es := PyInt 0\<rparr>) (relabel states) = map (\<lambda>es. es\<lparr>id_es := PyInt 0\<rparr>) states"
  by (rule nth_equalityI) (simp_all add: relabel_nth)

text \<open>
  C5. After the default (energy) sort of td.py the energies are ascending from each
  state to the next and the state at position \<open>i\<close> (counted from 0) has the id
  \<open>i + 1\<close>; the states are the parsed ones but for their ids. After the
  oscillator-strength sort (\<open>--sf\<close>) the strengths are descending and the states are
  the parsed ones, ids included.
\<close>

theorem sort_states_energy:
  "(\<forall>i. Suc i < length (sort_states False states) \<longrightarrow>
        dE (sort_states False states ! i) \<le> dE (sort_states False states ! Suc i))
   \<and> (\<forall>i < length (sort_states False states).
        id_es (sort_states False states ! i) = PyInt (int i + 1))
   \<and> mset (map (\<lambda>es. es\<lparr>id_es := PyInt 0\<rparr>) (sort_states False states))
       = mset (map (\<lambda>es. es\<lparr>id_es := PyInt 0\<rparr>) states)
   \<and> (\<forall>i. Suc i < length (sort_states True states) \<longrightarrow>
        f_osc (sort_states True states ! Suc i) \<le> f_osc (sort_states True states ! i))
   \<and> mset (sort_states True states) = mset states"
proof (intro conjI allI impI)
  fix i assume i: "Suc i < length (sort_states False states)"
  have "sorted (map dE (sort_states False states))"
    by (simp add: sort_states_def relabel_dE)
  then have "map dE (sort_states False states) ! i \<le> map dE (sort_states False states) ! Suc i"
    using i by (simp add: sorted_iff_nth_Suc)
  with i show "dE (sort_states False states ! i) \<le> dE (sort_states False states ! Suc i)"
    by simp
next
  fix i assume "i < length (sort_states False states)"
  then show "id_es (sort_states False states ! i) = PyInt (int i + 1)"
    by (simp add: sort_states_def relabel_nth)
next
  have "mset (map (\<lambda>es. es\<lparr>id_es := PyInt 0\<rparr>) (sort_key dE states))
      = mset (map (\<lambda>es. es\<lparr>id_es := PyInt 0\<rparr>) states)"
    by simp
  then show "mset (map (\<lambda>es. es\<lparr>id_es := PyInt 0\<rparr>) (sort_states False states))
       = mset (map (\<lambda>es. es\<lparr>id_es := PyInt 0\<rparr>) states)"
    by (simp only: sort_states_def if_False relabel_forget_id)
next
  fix i assume i: "Suc i < length (sort_states True states)"
  have "sorted (map (\<lambda>es. - f_osc es) (sort_states True states))"
    by (simp add: sort_states_def)
  then have "map (\<lambda>es. - f_osc es) (sort_states True states) ! i
      \<le> map (\<lambda>es. - f_osc es) (sort_states True states) ! Suc i"
    using i by (simp add: sorted_iff_nth_Suc)
  with i show "f_osc (sort_states True states ! Suc i) \<le> f_osc (sort_states True states ! i)"
    by simp
next
  show "mset (sort_states True states) = mset states"
    by (simp add: sort_states_def)
qed

lemma sort_ex:
  "sort_states False [ex_state_E 1 3.5 0.1, ex_state_E 2 2 0.4, ex_state_E 3 3 0.2]
     = [ex_state_E 1 2 0.4, ex_state_E 2 3 0.2, ex_state_E 3 3.5 0.1]"
  by (simp add: sort_states_def relabel_def ex_state_E_def upt_rec)

lemma sort_ex_sf:
  "sort_states True [ex_state_E 1 3.5 0.1, ex_state_E 2 2 0.4, ex_state_E 3 3 0.2]
     = [ex_state_E 2 2 0.4, ex_state_E 3 3 0.2, ex_state_E 1 3.5 0.1]"
  by (simp add: sort_states_def ex_state_E_def)

theorem sort_states_energy_witness:
  "sort_states False [ex_state_E 1 3.5 0.1, ex_state_E 2 2 0.4, ex_state_E 3 3 0.2]
     = [ex_state_E 1 2 0.4, ex_state_E 2 3 0.2, ex_state_E 3 3.5 0.1]
   \<and> dE (ex_state_E 1 2 0.4) \<le> dE (ex_state_E 2 3 0.2)
   \<and> id_es (ex_state_E 2 3 0.2) = PyInt 2
   \<and> sort_states True [ex_state_E 1 3.5 0.1, ex_state_E 2 2 0.4, ex_state_E 3 3 0.2]
     = [ex_state_E 2 2 0.4, ex_state_E 3 3 0.2, ex_state_E 1 3.5 0.1]
   \<and> f_osc (ex_state_E 3 3 0.2) \<le> f_osc (ex_state_E 2 2 0.4)"
proof -
  let ?xs = "[ex_state_E 1 3.5 0.1, ex_state_E 2 2 0.4, ex_state_E 3 3 0.2]"
  note main = sort_states_energy [of ?xs]
  have a: "Suc 0 < length (sort_states False ?xs)" unfolding sort_ex by simp
  from main a have "dE (sort_states False ?xs ! 0) \<le> dE (sort_states False ?xs ! Suc 0)" by blast
  then have 1: "dE (ex_state_E 1 2 0.4) \<le> dE (ex_state_E 2 3 0.2)" unfolding sort_ex by simp
  have b: "1 < length (sort_states False ?xs)" unfolding sort_ex by simp
  from main b have "id_es (sort_states False ?xs ! 1) = PyInt (int 1 + 1)" by blast
  then have 2: "id_es (ex_state_E 2 3 0.2) = PyInt 2" unfolding sort_ex by simp
  have c: "Suc 0 < length (sort_states True ?xs)" unfolding sort_ex_sf by simp
  from main c have "f_osc (sort_states True ?xs ! Suc 0) \<le> f_osc (sort_states True ?xs ! 0)" by blast
  then have 3: "f_osc (ex_state_E 3 3 0.2) \<le> f_osc (ex_state_E 2 2 0.4)" unfolding sort_ex_sf by simp
  from 1 2 3 sort_ex sort_ex_sf show ?thesis by simp
qed

text \<open>
  In td/run.py the same holds of \<open>--sf\<close>, and of \<open>--se\<close> too: no sort there touches
  an id.
\<close>

lemma sort_states_run_keeps: "mset (sort_states_run sf se states) = mset states"
  by (simp add: sort_states_run_def Let_def)

subsection \<open>The TURBOMOLE parsers\<close>

lemmas float_defs =
  py_float_def strip_sign_def split_first_def mantissa_of_def exponent_of_def digit_of_def


lemma add_mo_transition_frame [simp]:
  "dE (add_mo_transition es a b c d e f' g h i) = dE es"
  "l_nm (add_mo_transition es a b c d e f' g h i) = l_nm es"
  by (simp_all add: add_mo_transition_def Let_def)










text \<open>
  C6. \<open>parse_escf\<close> compares no lengths: with two symmetry matches and one match of
  each other pattern it returns one state, built from the first symmetry match, and
  drops the second. \<open>parse_ricc2\<close> asserts: three symmetry matches and energies against
  two oscillator strengths is an AssertionError.
\<close>

theorem parse_escf_truncates:
  "parse_escf HARTREE2EV HARTREE2NM
     [(''1'', ''singlet'', ''a''), (''2'', ''singlet'', ''a'')] [''0.1''] [''0.5''] [[]]
     = Inr [ExcitedState_init (PyInt 1) ''singlet'' ''a'' (HARTREE2EV / 10) (HARTREE2NM * 10) 0.5
              (PyStr ''???'')]
   \<and> parse_ricc2 EV2NM [(''1'', ''a'', ''1''), (''2'', ''a'', ''1''), (''3'', ''a'', ''1'')]
       [''4.0'', ''4.5'', ''5.0''] [''0.5'', ''0.1''] [[], []]
     = Inl AssertionError"
  by (simp add: parse_escf_def escf_state_def py_int_def float_defs parse_ricc2_def)

subsection \<open>The spectrum\<close>














end
